theory Spec2Isabelle
  imports Complex_Main
begin

section \<open>Data model (src/types.ts)\<close>

text \<open>
  \<^verbatim>\<open>export type ScreenSize = "xxl" | "xl" | "lg" | "md" | "sm";\<close>
  The union of string literals is a datatype with one constructor per literal.
\<close>

datatype ScreenSize = XXL | XL | LG | MD | SM

text \<open>
  \<^verbatim>\<open>Record<ScreenSize, T>\<close>: an object with one field of type \<open>T\<close> per label.
  \<^verbatim>\<open>Breakpoints = Record<ScreenSize, number>\<close>.
\<close>

record 'a Record_ScreenSize =
  xxl :: 'a
  xl :: 'a
  lg :: 'a
  md :: 'a
  sm :: 'a

text \<open>Indexing such an object by a label, \<^verbatim>\<open>sizes[name]\<close>.\<close>

fun index :: "'a Record_ScreenSize \<Rightarrow> ScreenSize \<Rightarrow> 'a" where
  "index r XXL = xxl r"
| "index r XL = xl r"
| "index r LG = lg r"
| "index r MD = md r"
| "index r SM = sm r"

text \<open>
  A TypeScript \<^verbatim>\<open>number\<close> that holds a threshold is modelled as a \<open>rat\<close>: the
  provider neither rounds nor validates what it is given, so a threshold may be
  fractional or negative. Arithmetic on it is exact (the rounding of doubles beyond
  \<open>2 ^ 53\<close> and the infinities are outside the model). The current viewport width is a
  whole number of pixels, a \<open>nat\<close>.
\<close>

type_synonym Breakpoints = "rat Record_ScreenSize"

text \<open>
  What can stand in one slot of the user's overrides, \<^verbatim>\<open>userDefinedSizes?.xxl\<close>:
  nothing (\<^verbatim>\<open>undefined\<close>, the key or the whole object is missing), the number
  \<^verbatim>\<open>NaN\<close>, or a finite number.
\<close>

datatype jsnumber = Undefined | NaN | Num rat

text \<open>JavaScript's ToBoolean on such a value: \<^verbatim>\<open>undefined\<close>, \<^verbatim>\<open>NaN\<close> and \<open>0\<close> are falsy.\<close>

fun truthy :: "jsnumber \<Rightarrow> bool" where
  "truthy Undefined = False"
| "truthy NaN = False"
| "truthy (Num n) = (n \<noteq> 0)"

text \<open>
  \<^verbatim>\<open>a || d\<close> where \<open>d\<close> is a finite number: the left operand when it is truthy,
  the right one otherwise. A truthy left operand is a finite number, so the result is one.
\<close>

fun js_or :: "jsnumber \<Rightarrow> rat \<Rightarrow> rat" where
  "js_or (Num n) d = (if n \<noteq> 0 then n else d)"
| "js_or NaN d = d"
| "js_or Undefined d = d"

text \<open>Optional chaining \<^verbatim>\<open>obj?.field\<close>: \<^verbatim>\<open>undefined\<close> when the object is missing.\<close>

definition opt_chain :: "'r option \<Rightarrow> ('r \<Rightarrow> jsnumber) \<Rightarrow> jsnumber" where
  "opt_chain obj field = (case obj of None \<Rightarrow> Undefined | Some r \<Rightarrow> field r)"

text \<open>
  \<^verbatim>\<open>interface ScreenSizeProviderProps { sizes?: Record<ScreenSize, number>; }\<close>
  The property is optional, and each slot may be missing at run time (a partial object).
\<close>

type_synonym ScreenSizeProviderProps = "jsnumber Record_ScreenSize option"

section \<open>The viewport-watching capability and the context registry\<close>

text \<open>The argument object of \<^verbatim>\<open>useMediaQuery\<close>; a bound that is not given is \<open>None\<close>.\<close>

record MediaQuery =
  maxWidth :: "rat option"
  minWidth :: "rat option"

text \<open>
  Modelled from the spec: \<^verbatim>\<open>useMediaQuery\<close> of the external library react-responsive,
  which is not part of the sources. The spec describes it as the viewport-range-watch
  service \<^verbatim>\<open>watch(minWidth, maxWidth) -> currentBoolean\<close>, which "evaluates whether the
  current window width falls in a given range". The second argument is the current
  viewport width, the state of the environment that the hook reads.
\<close>

definition useMediaQuery :: "MediaQuery \<Rightarrow> nat \<Rightarrow> bool" where
  "useMediaQuery q width =
     ((case minWidth q of None \<Rightarrow> True | Some lo \<Rightarrow> lo \<le> of_nat width) \<and>
      (case maxWidth q of None \<Rightarrow> True | Some hi \<Rightarrow> of_nat width \<le> hi))"

text \<open>
  Modelled from the spec: \<^verbatim>\<open>useContext\<close> of the host UI framework. A reader inside a
  provider's subtree gets the value that provider published (\<open>Some v\<close>); outside of any
  provider it gets the default the context was created with.
\<close>

definition useContext :: "'v \<Rightarrow> 'v option \<Rightarrow> 'v" where
  "useContext created provided = (case provided of None \<Rightarrow> created | Some v \<Rightarrow> v)"

section \<open>The richer variant (src/react/MediaContext.tsx)\<close>

definition defaultSizes :: Breakpoints where
  "defaultSizes = \<lparr>xxl = 1536, xl = 1280, lg = 1024, md = 768, sm = 640\<rparr>"

record ScreenSizeContextType =
  screenSize :: ScreenSize
  breakpoints :: Breakpoints

definition ScreenSizeContext :: ScreenSizeContextType where
  "ScreenSizeContext = \<lparr>screenSize = SM, breakpoints = defaultSizes\<rparr>"

definition findLargestScreenSizeMatch :: "bool Record_ScreenSize \<Rightarrow> ScreenSize" where
  "findLargestScreenSizeMatch sizes =
     (if xxl sizes then XXL
      else if xl sizes then XL
      else if lg sizes then LG
      else if md sizes then MD
      else SM)"

definition useScreenSize :: "ScreenSizeContextType option \<Rightarrow> ScreenSize" where
  "useScreenSize provided = screenSize (useContext ScreenSizeContext provided)"

text \<open>\<^verbatim>\<open>Number.MAX_SAFE_INTEGER\<close>, the constant \<open>2 ^ 53 - 1\<close> of the language.\<close>

definition Number_MAX_SAFE_INTEGER :: rat where
  "Number_MAX_SAFE_INTEGER = 9007199254740991"

text \<open>Lines 72 to 78 of the provider: the effective thresholds.\<close>

definition resolveSizes :: "ScreenSizeProviderProps \<Rightarrow> Breakpoints" where
  "resolveSizes userDefinedSizes =
     \<lparr>xxl = js_or (opt_chain userDefinedSizes xxl) (xxl defaultSizes),
      xl = js_or (opt_chain userDefinedSizes xl) (xl defaultSizes),
      lg = js_or (opt_chain userDefinedSizes lg) (lg defaultSizes),
      md = js_or (opt_chain userDefinedSizes md) (md defaultSizes),
      sm = js_or (opt_chain userDefinedSizes sm) (sm defaultSizes)\<rparr>"

text \<open>Lines 80 to 84: the five queries handed to \<^verbatim>\<open>useMediaQuery\<close>, by the name of the flag.\<close>

definition mediaQueries :: "Breakpoints \<Rightarrow> MediaQuery Record_ScreenSize" where
  "mediaQueries sizes =
     \<lparr>xxl = \<lparr>maxWidth = Some Number_MAX_SAFE_INTEGER, minWidth = Some (xxl sizes)\<rparr>,
      xl = \<lparr>maxWidth = Some (xxl sizes - 1), minWidth = Some (xl sizes)\<rparr>,
      lg = \<lparr>maxWidth = Some (xl sizes - 1), minWidth = Some (lg sizes)\<rparr>,
      md = \<lparr>maxWidth = Some (lg sizes - 1), minWidth = Some (md sizes)\<rparr>,
      sm = \<lparr>maxWidth = Some (md sizes - 1), minWidth = None\<rparr>\<rparr>"

text \<open>The five flags of one render, the object passed to the resolver on line 86.\<close>

definition mediaMatches :: "Breakpoints \<Rightarrow> nat \<Rightarrow> bool Record_ScreenSize" where
  "mediaMatches sizes width =
     \<lparr>xxl = useMediaQuery (xxl (mediaQueries sizes)) width,
      xl = useMediaQuery (xl (mediaQueries sizes)) width,
      lg = useMediaQuery (lg (mediaQueries sizes)) width,
      md = useMediaQuery (md (mediaQueries sizes)) width,
      sm = useMediaQuery (sm (mediaQueries sizes)) width\<rparr>"

text \<open>One render of the provider: the value it publishes to its subtree.\<close>

definition ScreenSizeProvider :: "ScreenSizeProviderProps \<Rightarrow> nat \<Rightarrow> ScreenSizeContextType" where
  "ScreenSizeProvider userDefinedSizes width =
     (let sizes = resolveSizes userDefinedSizes;
          screenSize = findLargestScreenSizeMatch (mediaMatches sizes width)
      in \<lparr>screenSize = screenSize, breakpoints = sizes\<rparr>)"

section \<open>The legacy variant (the provider module that follows the types in src/types.ts)\<close>

definition MAX_SAFE_INTEGER :: rat where
  "MAX_SAFE_INTEGER = 99999"

record ScreenSizeContextType_legacy =
  screenSize_legacy :: ScreenSize

definition ScreenSizeContext_legacy :: ScreenSizeContextType_legacy where
  "ScreenSizeContext_legacy = \<lparr>screenSize_legacy = SM\<rparr>"

definition findLargestScreenSizeMatch_legacy :: "bool Record_ScreenSize \<Rightarrow> ScreenSize" where
  "findLargestScreenSizeMatch_legacy sizes =
     (if xxl sizes then XXL
      else if xl sizes then XL
      else if lg sizes then LG
      else if md sizes then MD
      else SM)"

definition useScreenSize_legacy :: "ScreenSizeContextType_legacy option \<Rightarrow> ScreenSize" where
  "useScreenSize_legacy provided =
     screenSize_legacy (useContext ScreenSizeContext_legacy provided)"

text \<open>The legacy thresholds object has four keys; there is no \<^verbatim>\<open>sm\<close> entry.\<close>

record Sizes_legacy =
  xxl_legacy :: rat
  xl_legacy :: rat
  lg_legacy :: rat
  md_legacy :: rat

text \<open>Indexing the legacy object: a key it does not have gives \<^verbatim>\<open>undefined\<close>.\<close>

fun index_legacy :: "Sizes_legacy \<Rightarrow> ScreenSize \<Rightarrow> rat option" where
  "index_legacy r XXL = Some (xxl_legacy r)"
| "index_legacy r XL = Some (xl_legacy r)"
| "index_legacy r LG = Some (lg_legacy r)"
| "index_legacy r MD = Some (md_legacy r)"
| "index_legacy r SM = None"

definition resolveSizes_legacy :: "ScreenSizeProviderProps \<Rightarrow> Sizes_legacy" where
  "resolveSizes_legacy userDefinedSizes =
     \<lparr>xxl_legacy = js_or (opt_chain userDefinedSizes xxl) 1536,
      xl_legacy = js_or (opt_chain userDefinedSizes xl) 1280,
      lg_legacy = js_or (opt_chain userDefinedSizes lg) 1024,
      md_legacy = js_or (opt_chain userDefinedSizes md) 768\<rparr>"

definition mediaQueries_legacy :: "Sizes_legacy \<Rightarrow> MediaQuery Record_ScreenSize" where
  "mediaQueries_legacy sizes =
     \<lparr>xxl = \<lparr>maxWidth = Some MAX_SAFE_INTEGER, minWidth = Some (xxl_legacy sizes)\<rparr>,
      xl = \<lparr>maxWidth = Some (xxl_legacy sizes - 1), minWidth = Some (xl_legacy sizes)\<rparr>,
      lg = \<lparr>maxWidth = Some (xl_legacy sizes - 1), minWidth = Some (lg_legacy sizes)\<rparr>,
      md = \<lparr>maxWidth = Some (lg_legacy sizes - 1), minWidth = Some (md_legacy sizes)\<rparr>,
      sm = \<lparr>maxWidth = Some (md_legacy sizes - 1), minWidth = None\<rparr>\<rparr>"

definition mediaMatches_legacy :: "Sizes_legacy \<Rightarrow> nat \<Rightarrow> bool Record_ScreenSize" where
  "mediaMatches_legacy sizes width =
     \<lparr>xxl = useMediaQuery (xxl (mediaQueries_legacy sizes)) width,
      xl = useMediaQuery (xl (mediaQueries_legacy sizes)) width,
      lg = useMediaQuery (lg (mediaQueries_legacy sizes)) width,
      md = useMediaQuery (md (mediaQueries_legacy sizes)) width,
      sm = useMediaQuery (sm (mediaQueries_legacy sizes)) width\<rparr>"

definition ScreenSizeProvider_legacy ::
  "ScreenSizeProviderProps \<Rightarrow> nat \<Rightarrow> ScreenSizeContextType_legacy" where
  "ScreenSizeProvider_legacy userDefinedSizes width =
     (let sizes = resolveSizes_legacy userDefinedSizes;
          screenSize = findLargestScreenSizeMatch_legacy (mediaMatches_legacy sizes width)
      in \<lparr>screenSize_legacy = screenSize\<rparr>)"

section \<open>Vocabulary of the specification\<close>

text \<open>The five labels from the largest to the smallest, and the rank of each.\<close>

definition labels :: "ScreenSize list" where
  "labels = [XXL, XL, LG, MD, SM]"

fun rank :: "ScreenSize \<Rightarrow> nat" where
  "rank XXL = 4"
| "rank XL = 3"
| "rank LG = 2"
| "rank MD = 1"
| "rank SM = 0"

text \<open>A threshold that is a whole number, as \<^verbatim>\<open>Number.isInteger\<close> tests it.\<close>

definition isInteger :: "rat \<Rightarrow> bool" where
  "isInteger x = (x = of_int \<lfloor>x\<rfloor>)"

text \<open>How many of the five flags are true.\<close>

definition countTrue :: "bool Record_ScreenSize \<Rightarrow> nat" where
  "countTrue flags = length (filter (index flags) labels)"

section \<open>The resolver\<close>

lemma ScreenSize_all: "l = XXL \<or> l = XL \<or> l = LG \<or> l = MD \<or> l = SM"
  by (cases l) simp_all

lemma countTrue_sum:
  "countTrue flags =
     of_bool (xxl flags) + of_bool (xl flags) + of_bool (lg flags)
       + of_bool (md flags) + of_bool (sm flags)"
  by (simp add: countTrue_def labels_def)

text \<open>
  C1. When exactly one of the five flags is true, the resolver (in both variants)
  returns the label of that flag; when all five are false it returns \<open>sm\<close>.
\<close>

theorem C1_single_flag:
  "(countTrue flags = 1 \<and> index flags l \<longrightarrow>
      findLargestScreenSizeMatch flags = l \<and> findLargestScreenSizeMatch_legacy flags = l) \<and>
   (countTrue flags = 0 \<longrightarrow>
      findLargestScreenSizeMatch flags = SM \<and> findLargestScreenSizeMatch_legacy flags = SM)"
  by (cases l)
    (auto simp: countTrue_sum findLargestScreenSizeMatch_def
      findLargestScreenSizeMatch_legacy_def split: if_splits)


theorem C1_single_flag_witness:
  "countTrue \<lparr>xxl = False, xl = False, lg = True, md = False, sm = False\<rparr> = 1 \<and>
   index \<lparr>xxl = False, xl = False, lg = True, md = False, sm = False\<rparr> LG \<and>
   findLargestScreenSizeMatch \<lparr>xxl = False, xl = False, lg = True, md = False, sm = False\<rparr> = LG \<and>
   findLargestScreenSizeMatch_legacy
     \<lparr>xxl = False, xl = False, lg = True, md = False, sm = False\<rparr> = LG \<and>
   countTrue \<lparr>xxl = False, xl = False, lg = False, md = False, sm = False\<rparr> = 0 \<and>
   findLargestScreenSizeMatch \<lparr>xxl = False, xl = False, lg = False, md = False, sm = False\<rparr> = SM \<and>
   findLargestScreenSizeMatch_legacy
     \<lparr>xxl = False, xl = False, lg = False, md = False, sm = False\<rparr> = SM"
  using C1_single_flag [of "\<lparr>xxl = False, xl = False, lg = True, md = False, sm = False\<rparr>" LG]
    C1_single_flag [of "\<lparr>xxl = False, xl = False, lg = False, md = False, sm = False\<rparr>" SM]
  by (simp add: countTrue_sum)

text \<open>
  C2. When more than one flag is true, the resolver (in both variants) returns a label
  whose flag is true and whose rank is the largest among the true flags, under
  \<open>xxl > xl > lg > md > sm\<close>.
\<close>

theorem C2_largest_true_flag:
  assumes "1 < countTrue flags"
  shows "index flags (findLargestScreenSizeMatch flags) \<and>
         (\<forall>l. index flags l \<longrightarrow> rank l \<le> rank (findLargestScreenSizeMatch flags)) \<and>
         index flags (findLargestScreenSizeMatch_legacy flags) \<and>
         (\<forall>l. index flags l \<longrightarrow> rank l \<le> rank (findLargestScreenSizeMatch_legacy flags))"
proof -
  have same: "findLargestScreenSizeMatch_legacy flags = findLargestScreenSizeMatch flags"
    by (simp add: findLargestScreenSizeMatch_def findLargestScreenSizeMatch_legacy_def)
  have some: "xxl flags \<or> xl flags \<or> lg flags \<or> md flags"
  proof (rule ccontr)
    assume "\<not> (xxl flags \<or> xl flags \<or> lg flags \<or> md flags)"
    then have "countTrue flags \<le> 1" by (simp add: countTrue_sum)
    with assms show False by simp
  qed
  then have true: "index flags (findLargestScreenSizeMatch flags)"
    by (auto simp: findLargestScreenSizeMatch_def)
  have top: "rank l \<le> rank (findLargestScreenSizeMatch flags)" if "index flags l" for l
    using that some by (cases l) (auto simp: findLargestScreenSizeMatch_def)
  from true top same show ?thesis by simp
qed

theorem C2_largest_true_flag_witness:
  "1 < countTrue \<lparr>xxl = False, xl = True, lg = False, md = True, sm = True\<rparr> \<and>
   findLargestScreenSizeMatch \<lparr>xxl = False, xl = True, lg = False, md = True, sm = True\<rparr> = XL \<and>
   rank MD \<le> rank (findLargestScreenSizeMatch
     \<lparr>xxl = False, xl = True, lg = False, md = True, sm = True\<rparr>)"
proof -
  have h: "1 < countTrue \<lparr>xxl = False, xl = True, lg = False, md = True, sm = True\<rparr>"
    by (simp add: countTrue_sum)
  show ?thesis
    using h C2_largest_true_flag [OF h]
    by (simp add: findLargestScreenSizeMatch_def)
qed


section \<open>The thresholds and the width ranges\<close>

lemma js_or_truthy: "truthy a \<Longrightarrow> Num (js_or a d) = a"
  by (cases a) simp_all

lemma js_or_falsy: "\<not> truthy a \<Longrightarrow> js_or a d = d"
  by (cases a) simp_all

lemma index_resolveSizes:
  "index (resolveSizes u) name =
     js_or (opt_chain u (\<lambda>r. index r name)) (index defaultSizes name)"
  by (cases name) (simp_all add: resolveSizes_def)

lemma index_resolveSizes_legacy:
  "name \<noteq> SM \<Longrightarrow>
   index_legacy (resolveSizes_legacy u) name =
     Some (js_or (opt_chain u (\<lambda>r. index r name)) (index defaultSizes name))"
  by (cases name) (simp_all add: resolveSizes_legacy_def defaultSizes_def)

lemma mediaMatches_ranges:
  "xxl (mediaMatches sizes w) = (xxl sizes \<le> of_nat w \<and> of_nat w \<le> Number_MAX_SAFE_INTEGER)"
  "xl (mediaMatches sizes w) = (xl sizes \<le> of_nat w \<and> of_nat w \<le> xxl sizes - 1)"
  "lg (mediaMatches sizes w) = (lg sizes \<le> of_nat w \<and> of_nat w \<le> xl sizes - 1)"
  "md (mediaMatches sizes w) = (md sizes \<le> of_nat w \<and> of_nat w \<le> lg sizes - 1)"
  "sm (mediaMatches sizes w) = (of_nat w \<le> md sizes - 1)"
  by (simp_all add: mediaMatches_def mediaQueries_def useMediaQuery_def)

lemma mediaMatches_legacy_ranges:
  "xxl (mediaMatches_legacy t w) = (xxl_legacy t \<le> of_nat w \<and> of_nat w \<le> MAX_SAFE_INTEGER)"
  "xl (mediaMatches_legacy t w) = (xl_legacy t \<le> of_nat w \<and> of_nat w \<le> xxl_legacy t - 1)"
  "lg (mediaMatches_legacy t w) = (lg_legacy t \<le> of_nat w \<and> of_nat w \<le> xl_legacy t - 1)"
  "md (mediaMatches_legacy t w) = (md_legacy t \<le> of_nat w \<and> of_nat w \<le> lg_legacy t - 1)"
  "sm (mediaMatches_legacy t w) = (of_nat w \<le> md_legacy t - 1)"
  by (simp_all add: mediaMatches_legacy_def mediaQueries_legacy_def useMediaQuery_def)

text \<open>
  C3, as the claim states it for the richer variant: the \<open>sm\<close> range would start at the
  \<open>sm\<close> threshold. With the default table (\<open>sm = 640\<close>, \<open>md = 768\<close>) a viewport of
  width 500 matches the \<open>sm\<close> watch although 500 is not in \<open>[640, 767]\<close>, and the
  \<open>sm\<close> query carries no lower bound at all.
\<close>

theorem C3_sm_range_counterexample:
  "\<not> (sm (mediaMatches (resolveSizes None) 500) \<longleftrightarrow>
        of_nat 500 \<in> {sm (resolveSizes None) .. md (resolveSizes None) - 1}) \<and>
   minWidth (sm (mediaQueries (resolveSizes None))) \<noteq> Some (sm (resolveSizes None))"
  by (simp add: mediaMatches_ranges resolveSizes_def defaultSizes_def opt_chain_def
      mediaQueries_def)

text \<open>
  C3, amended. For every threshold table and every viewport width, the five watches of
  the provider are true exactly on these ranges: \<open>xxl\<close> on \<open>[xxl, UNBOUNDED_MAX]\<close>,
  \<open>xl\<close> on \<open>[xl, xxl - 1]\<close>, \<open>lg\<close> on \<open>[lg, xl - 1]\<close>, \<open>md\<close> on \<open>[md, lg - 1]\<close> and
  \<open>sm\<close> on \<open>[0, md - 1]\<close>, in both variants: the \<open>sm\<close> watch has no lower bound, and
  the \<open>sm\<close> threshold of the richer variant is not one. \<open>UNBOUNDED_MAX\<close> is 99999 in
  the legacy variant and \<open>2 ^ 53 - 1\<close> in the richer one.
\<close>

theorem C3_ranges:
  "xxl (mediaMatches sizes w) = (of_nat w \<in> {xxl sizes .. Number_MAX_SAFE_INTEGER}) \<and>
   xl (mediaMatches sizes w) = (of_nat w \<in> {xl sizes .. xxl sizes - 1}) \<and>
   lg (mediaMatches sizes w) = (of_nat w \<in> {lg sizes .. xl sizes - 1}) \<and>
   md (mediaMatches sizes w) = (of_nat w \<in> {md sizes .. lg sizes - 1}) \<and>
   sm (mediaMatches sizes w) = (of_nat w \<in> {0 .. md sizes - 1}) \<and>
   minWidth (sm (mediaQueries sizes)) = None \<and>
   Number_MAX_SAFE_INTEGER = 2 ^ 53 - 1 \<and>
   xxl (mediaMatches_legacy t w) = (of_nat w \<in> {xxl_legacy t .. MAX_SAFE_INTEGER}) \<and>
   xl (mediaMatches_legacy t w) = (of_nat w \<in> {xl_legacy t .. xxl_legacy t - 1}) \<and>
   lg (mediaMatches_legacy t w) = (of_nat w \<in> {lg_legacy t .. xl_legacy t - 1}) \<and>
   md (mediaMatches_legacy t w) = (of_nat w \<in> {md_legacy t .. lg_legacy t - 1}) \<and>
   sm (mediaMatches_legacy t w) = (of_nat w \<in> {0 .. md_legacy t - 1}) \<and>
   minWidth (sm (mediaQueries_legacy t)) = None \<and>
   MAX_SAFE_INTEGER = 99999"
  by (simp add: mediaMatches_ranges mediaMatches_legacy_ranges mediaQueries_def
      mediaQueries_legacy_def Number_MAX_SAFE_INTEGER_def MAX_SAFE_INTEGER_def)

text \<open>
  C4, as the claim states it for the legacy variant and the name \<open>sm\<close>: an overrides
  object whose \<open>sm\<close> entry is 500, present and truthy, would resolve \<open>sm\<close> to 500.
  The legacy table is built from the four larger names only and has no \<open>sm\<close> entry.
\<close>

theorem C4_legacy_sm_counterexample:
  "truthy (opt_chain
     (Some \<lparr>xxl = Num 1536, xl = Num 1280, lg = Num 1024, md = Num 768, sm = Num 500\<rparr>)
     (\<lambda>r. index r SM)) \<and>
   index_legacy (resolveSizes_legacy
     (Some \<lparr>xxl = Num 1536, xl = Num 1280, lg = Num 1024, md = Num 768, sm = Num 500\<rparr>))
     SM \<noteq> Some 500"
  by (simp add: opt_chain_def)

text \<open>
  C4, amended. For every overrides object (or none) and every name of the variant's
  table, the resolved table holds the override when it is present and truthy, and the
  built-in default otherwise; so an override of \<open>0\<close>, \<open>NaN\<close> or nothing yields
  the default. The richer variant resolves the five names with the defaults 1536, 1280,
  1024, 768 and 640; the legacy variant resolves the four names \<open>xxl\<close>, \<open>xl\<close>,
  \<open>lg\<close>, \<open>md\<close> with the defaults 1536, 1280, 1024 and 768, and its table has no
  \<open>sm\<close> entry, whatever the overrides.
\<close>

theorem C4_resolve:
  "(truthy (opt_chain u (\<lambda>r. index r name)) \<longrightarrow>
      Num (index (resolveSizes u) name) = opt_chain u (\<lambda>r. index r name)) \<and>
   (\<not> truthy (opt_chain u (\<lambda>r. index r name)) \<longrightarrow>
      index (resolveSizes u) name = index defaultSizes name) \<and>
   defaultSizes = \<lparr>xxl = 1536, xl = 1280, lg = 1024, md = 768, sm = 640\<rparr> \<and>
   (truthy (opt_chain u (\<lambda>r. index r name)) \<and> name \<noteq> SM \<longrightarrow>
      map_option Num (index_legacy (resolveSizes_legacy u) name)
        = Some (opt_chain u (\<lambda>r. index r name))) \<and>
   (\<not> truthy (opt_chain u (\<lambda>r. index r name)) \<longrightarrow>
      index_legacy (resolveSizes_legacy u) name =
        index_legacy \<lparr>xxl_legacy = 1536, xl_legacy = 1280, lg_legacy = 1024,
          md_legacy = 768\<rparr> name) \<and>
   index_legacy (resolveSizes_legacy u) SM = None"
proof -
  let ?a = "opt_chain u (\<lambda>r. index r name)"
  have b1: "truthy ?a \<longrightarrow> Num (index (resolveSizes u) name) = ?a"
    by (simp add: index_resolveSizes js_or_truthy)
  have b2: "\<not> truthy ?a \<longrightarrow> index (resolveSizes u) name = index defaultSizes name"
    by (simp add: index_resolveSizes js_or_falsy)
  have a1: "truthy ?a \<and> name \<noteq> SM \<longrightarrow>
      map_option Num (index_legacy (resolveSizes_legacy u) name) = Some ?a"
    by (simp add: index_resolveSizes_legacy js_or_truthy)
  have a2: "\<not> truthy ?a \<longrightarrow>
      index_legacy (resolveSizes_legacy u) name =
        index_legacy \<lparr>xxl_legacy = 1536, xl_legacy = 1280, lg_legacy = 1024,
          md_legacy = 768\<rparr> name"
    by (cases name) (simp_all add: resolveSizes_legacy_def js_or_falsy)
  from b1 b2 a1 a2 show ?thesis
    by (simp add: defaultSizes_def)
qed

theorem C4_resolve_witness:
  "truthy (opt_chain
     (Some \<lparr>xxl = Undefined, xl = Num 1000, lg = Undefined, md = Undefined, sm = Undefined\<rparr>)
     (\<lambda>r. index r XL)) \<and>
   index (resolveSizes
     (Some \<lparr>xxl = Undefined, xl = Num 1000, lg = Undefined, md = Undefined, sm = Undefined\<rparr>))
     XL = 1000 \<and>
   index_legacy (resolveSizes_legacy
     (Some \<lparr>xxl = Undefined, xl = Num 1000, lg = Undefined, md = Undefined, sm = Undefined\<rparr>))
     XL = Some 1000 \<and>
   \<not> truthy (opt_chain
     (Some \<lparr>xxl = Undefined, xl = Num 0, lg = Undefined, md = Undefined, sm = Undefined\<rparr>)
     (\<lambda>r. index r XL)) \<and>
   index (resolveSizes
     (Some \<lparr>xxl = Undefined, xl = Num 0, lg = Undefined, md = Undefined, sm = Undefined\<rparr>))
     XL = 1280 \<and>
   index_legacy (resolveSizes_legacy
     (Some \<lparr>xxl = Undefined, xl = Num 0, lg = Undefined, md = Undefined, sm = Undefined\<rparr>))
     XL = Some 1280"
proof -
  let ?u = "Some \<lparr>xxl = Undefined, xl = Num 1000, lg = Undefined, md = Undefined,
    sm = Undefined\<rparr>"
  let ?z = "Some \<lparr>xxl = Undefined, xl = Num 0, lg = Undefined, md = Undefined,
    sm = Undefined\<rparr>"
  have tu: "truthy (opt_chain ?u (\<lambda>r. index r XL))"
    by (simp add: opt_chain_def)
  have fz: "\<not> truthy (opt_chain ?z (\<lambda>r. index r XL))"
    by (simp add: opt_chain_def)
  have d: "index defaultSizes XL = 1280"
    by (simp add: defaultSizes_def)
  from C4_resolve [of ?u XL] tu
  have u1: "index (resolveSizes ?u) XL = 1000"
    and u2: "index_legacy (resolveSizes_legacy ?u) XL = Some 1000"
    by (simp_all add: opt_chain_def)
  from C4_resolve [of ?z XL] fz d
  have z1: "index (resolveSizes ?z) XL = 1280"
    and z2: "index_legacy (resolveSizes_legacy ?z) XL = Some 1280"
    by simp_all
  from tu fz u1 u2 z1 z2 show ?thesis
    by blast
qed


lemma whole_threshold_gap:
  assumes "isInteger x"
  shows "((of_nat w :: rat) \<le> x - 1) = (of_nat w < x)"
proof -
  from assms obtain a :: int where x: "x = of_int a"
    by (auto simp: isInteger_def)
  have "((of_int (int w) :: rat) \<le> of_int (a - 1)) = (of_int (int w) < (of_int a :: rat))"
    by (simp only: of_int_le_iff of_int_less_iff) arith
  then show ?thesis
    by (simp add: x)
qed

text \<open>
  C5, as the claim states it. The provider hands a threshold to the watches as it is
  given. With the override \<^verbatim>\<open>{xxl: 1536.5}\<close> the thresholds satisfy
  \<open>md < lg < xl < xxl \<le> UNBOUNDED_MAX\<close>, yet at width 1536 no watch is true: the
  \<open>xl\<close> range ends at 1535.5 and the \<open>xxl\<close> range starts at 1536.5. Both variants
  then publish \<open>sm\<close>.
\<close>

theorem C5_fractional_threshold_counterexample:
  "md (resolveSizes 
     (Some \<lparr>xxl = Num (3073 / 2), xl = Undefined, lg = Undefined, md = Undefined, sm = Undefined\<rparr>)) < lg (resolveSizes 
     (Some \<lparr>xxl = Num (3073 / 2), xl = Undefined, lg = Undefined, md = Undefined, sm = Undefined\<rparr>)) \<and>
   lg (resolveSizes 
     (Some \<lparr>xxl = Num (3073 / 2), xl = Undefined, lg = Undefined, md = Undefined, sm = Undefined\<rparr>)) < xl (resolveSizes 
     (Some \<lparr>xxl = Num (3073 / 2), xl = Undefined, lg = Undefined, md = Undefined, sm = Undefined\<rparr>)) \<and>
   xl (resolveSizes 
     (Some \<lparr>xxl = Num (3073 / 2), xl = Undefined, lg = Undefined, md = Undefined, sm = Undefined\<rparr>)) < xxl (resolveSizes 
     (Some \<lparr>xxl = Num (3073 / 2), xl = Undefined, lg = Undefined, md = Undefined, sm = Undefined\<rparr>)) \<and>
   xxl (resolveSizes 
     (Some \<lparr>xxl = Num (3073 / 2), xl = Undefined, lg = Undefined, md = Undefined, sm = Undefined\<rparr>)) \<le> Number_MAX_SAFE_INTEGER \<and>
   of_nat 1536 \<le> Number_MAX_SAFE_INTEGER \<and>
   countTrue (mediaMatches (resolveSizes 
     (Some \<lparr>xxl = Num (3073 / 2), xl = Undefined, lg = Undefined, md = Undefined, sm = Undefined\<rparr>)) 1536) = 0 \<and>
   screenSize (ScreenSizeProvider 
     (Some \<lparr>xxl = Num (3073 / 2), xl = Undefined, lg = Undefined, md = Undefined, sm = Undefined\<rparr>) 1536) = SM \<and>
   md_legacy (resolveSizes_legacy 
     (Some \<lparr>xxl = Num (3073 / 2), xl = Undefined, lg = Undefined, md = Undefined, sm = Undefined\<rparr>)) < lg_legacy (resolveSizes_legacy 
     (Some \<lparr>xxl = Num (3073 / 2), xl = Undefined, lg = Undefined, md = Undefined, sm = Undefined\<rparr>)) \<and>
   lg_legacy (resolveSizes_legacy 
     (Some \<lparr>xxl = Num (3073 / 2), xl = Undefined, lg = Undefined, md = Undefined, sm = Undefined\<rparr>)) < xl_legacy (resolveSizes_legacy 
     (Some \<lparr>xxl = Num (3073 / 2), xl = Undefined, lg = Undefined, md = Undefined, sm = Undefined\<rparr>)) \<and>
   xl_legacy (resolveSizes_legacy 
     (Some \<lparr>xxl = Num (3073 / 2), xl = Undefined, lg = Undefined, md = Undefined, sm = Undefined\<rparr>)) < xxl_legacy (resolveSizes_legacy 
     (Some \<lparr>xxl = Num (3073 / 2), xl = Undefined, lg = Undefined, md = Undefined, sm = Undefined\<rparr>)) \<and>
   xxl_legacy (resolveSizes_legacy 
     (Some \<lparr>xxl = Num (3073 / 2), xl = Undefined, lg = Undefined, md = Undefined, sm = Undefined\<rparr>)) \<le> MAX_SAFE_INTEGER \<and>
   of_nat 1536 \<le> MAX_SAFE_INTEGER \<and>
   countTrue (mediaMatches_legacy (resolveSizes_legacy 
     (Some \<lparr>xxl = Num (3073 / 2), xl = Undefined, lg = Undefined, md = Undefined, sm = Undefined\<rparr>)) 1536) = 0 \<and>
   screenSize_legacy (ScreenSizeProvider_legacy 
     (Some \<lparr>xxl = Num (3073 / 2), xl = Undefined, lg = Undefined, md = Undefined, sm = Undefined\<rparr>) 1536) = SM"
  by (simp add: countTrue_sum mediaMatches_ranges mediaMatches_legacy_ranges
      ScreenSizeProvider_def ScreenSizeProvider_legacy_def Let_def
      findLargestScreenSizeMatch_def findLargestScreenSizeMatch_legacy_def
      resolveSizes_def resolveSizes_legacy_def opt_chain_def defaultSizes_def
      Number_MAX_SAFE_INTEGER_def MAX_SAFE_INTEGER_def)

text \<open>
  C5, amended. When the thresholds \<open>md\<close>, \<open>lg\<close>, \<open>xl\<close> and \<open>xxl\<close> are whole numbers
  and satisfy \<open>md < lg < xl < xxl \<le> UNBOUNDED_MAX\<close>, every viewport width from 0 to
  \<open>UNBOUNDED_MAX\<close> makes exactly one of the five flags true, and the resolver returns
  the label of that flag; in both variants, each with its own \<open>UNBOUNDED_MAX\<close>.
\<close>

theorem C5_exactly_one_range:
  "(isInteger (md sizes) \<and> isInteger (lg sizes) \<and> isInteger (xl sizes) \<and>
    isInteger (xxl sizes) \<and>
    md sizes < lg sizes \<and> lg sizes < xl sizes \<and> xl sizes < xxl sizes \<and>
    xxl sizes \<le> Number_MAX_SAFE_INTEGER \<and> of_nat w \<le> Number_MAX_SAFE_INTEGER \<longrightarrow>
      countTrue (mediaMatches sizes w) = 1 \<and>
      index (mediaMatches sizes w) (findLargestScreenSizeMatch (mediaMatches sizes w))) \<and>
   (isInteger (md_legacy t) \<and> isInteger (lg_legacy t) \<and> isInteger (xl_legacy t) \<and>
    isInteger (xxl_legacy t) \<and>
    md_legacy t < lg_legacy t \<and> lg_legacy t < xl_legacy t \<and> xl_legacy t < xxl_legacy t \<and>
    xxl_legacy t \<le> MAX_SAFE_INTEGER \<and> of_nat w \<le> MAX_SAFE_INTEGER \<longrightarrow>
      countTrue (mediaMatches_legacy t w) = 1 \<and>
      index (mediaMatches_legacy t w)
        (findLargestScreenSizeMatch_legacy (mediaMatches_legacy t w)))"
proof (intro conjI impI)
  assume a: "isInteger (md sizes) \<and> isInteger (lg sizes) \<and> isInteger (xl sizes) \<and>
    isInteger (xxl sizes) \<and>
    md sizes < lg sizes \<and> lg sizes < xl sizes \<and> xl sizes < xxl sizes \<and>
    xxl sizes \<le> Number_MAX_SAFE_INTEGER \<and> of_nat w \<le> Number_MAX_SAFE_INTEGER"
  then show "countTrue (mediaMatches sizes w) = 1"
    by (auto simp: countTrue_sum mediaMatches_ranges whole_threshold_gap)
  from a show
    "index (mediaMatches sizes w) (findLargestScreenSizeMatch (mediaMatches sizes w))"
    by (auto simp: findLargestScreenSizeMatch_def mediaMatches_ranges whole_threshold_gap)
next
  assume a: "isInteger (md_legacy t) \<and> isInteger (lg_legacy t) \<and>
    isInteger (xl_legacy t) \<and> isInteger (xxl_legacy t) \<and>
    md_legacy t < lg_legacy t \<and> lg_legacy t < xl_legacy t \<and>
    xl_legacy t < xxl_legacy t \<and> xxl_legacy t \<le> MAX_SAFE_INTEGER \<and>
    of_nat w \<le> MAX_SAFE_INTEGER"
  then show "countTrue (mediaMatches_legacy t w) = 1"
    by (auto simp: countTrue_sum mediaMatches_legacy_ranges whole_threshold_gap)
  from a show "index (mediaMatches_legacy t w)
      (findLargestScreenSizeMatch_legacy (mediaMatches_legacy t w))"
    by (auto simp: findLargestScreenSizeMatch_legacy_def mediaMatches_legacy_ranges
        whole_threshold_gap)
qed

theorem C5_exactly_one_range_witness:
  "isInteger (md (resolveSizes None)) \<and> isInteger (lg (resolveSizes None)) \<and>
   isInteger (xl (resolveSizes None)) \<and> isInteger (xxl (resolveSizes None)) \<and>
   md (resolveSizes None) < lg (resolveSizes None) \<and>
   lg (resolveSizes None) < xl (resolveSizes None) \<and>
   xl (resolveSizes None) < xxl (resolveSizes None) \<and>
   xxl (resolveSizes None) \<le> Number_MAX_SAFE_INTEGER \<and>
   of_nat 800 \<le> Number_MAX_SAFE_INTEGER \<and>
   countTrue (mediaMatches (resolveSizes None) 800) = 1 \<and>
   md (mediaMatches (resolveSizes None) 800) \<and>
   isInteger (md_legacy (resolveSizes_legacy None)) \<and>
   isInteger (lg_legacy (resolveSizes_legacy None)) \<and>
   isInteger (xl_legacy (resolveSizes_legacy None)) \<and>
   isInteger (xxl_legacy (resolveSizes_legacy None)) \<and>
   md_legacy (resolveSizes_legacy None) < lg_legacy (resolveSizes_legacy None) \<and>
   lg_legacy (resolveSizes_legacy None) < xl_legacy (resolveSizes_legacy None) \<and>
   xl_legacy (resolveSizes_legacy None) < xxl_legacy (resolveSizes_legacy None) \<and>
   xxl_legacy (resolveSizes_legacy None) \<le> MAX_SAFE_INTEGER \<and>
   of_nat 800 \<le> MAX_SAFE_INTEGER \<and>
   countTrue (mediaMatches_legacy (resolveSizes_legacy None) 800) = 1 \<and>
   md (mediaMatches_legacy (resolveSizes_legacy None) 800)"
proof -
  have s: "resolveSizes None = \<lparr>xxl = 1536, xl = 1280, lg = 1024, md = 768, sm = 640\<rparr>"
    by (simp add: resolveSizes_def opt_chain_def defaultSizes_def)
  have t: "resolveSizes_legacy None =
      \<lparr>xxl_legacy = 1536, xl_legacy = 1280, lg_legacy = 1024, md_legacy = 768\<rparr>"
    by (simp add: resolveSizes_legacy_def opt_chain_def)
  have i: "isInteger 768" "isInteger 1024" "isInteger 1280" "isInteger 1536"
    by (simp_all add: isInteger_def)
  have m: "md (mediaMatches (resolveSizes None) 800)"
    "md (mediaMatches_legacy (resolveSizes_legacy None) 800)"
    by (simp_all add: s t mediaMatches_ranges mediaMatches_legacy_ranges)
  from C5_exactly_one_range [of "resolveSizes None" 800 "resolveSizes_legacy None"] i
  have c: "countTrue (mediaMatches (resolveSizes None) 800) = 1"
    "countTrue (mediaMatches_legacy (resolveSizes_legacy None) 800) = 1"
    by (simp_all add: s t Number_MAX_SAFE_INTEGER_def MAX_SAFE_INTEGER_def)
  have h: "isInteger (md (resolveSizes None)) \<and> isInteger (lg (resolveSizes None)) \<and>
      isInteger (xl (resolveSizes None)) \<and> isInteger (xxl (resolveSizes None)) \<and>
      md (resolveSizes None) < lg (resolveSizes None) \<and>
      lg (resolveSizes None) < xl (resolveSizes None) \<and>
      xl (resolveSizes None) < xxl (resolveSizes None) \<and>
      xxl (resolveSizes None) \<le> Number_MAX_SAFE_INTEGER \<and>
      of_nat 800 \<le> Number_MAX_SAFE_INTEGER"
    using i by (simp add: s Number_MAX_SAFE_INTEGER_def)
  have hl: "isInteger (md_legacy (resolveSizes_legacy None)) \<and>
      isInteger (lg_legacy (resolveSizes_legacy None)) \<and>
      isInteger (xl_legacy (resolveSizes_legacy None)) \<and>
      isInteger (xxl_legacy (resolveSizes_legacy None)) \<and>
      md_legacy (resolveSizes_legacy None) < lg_legacy (resolveSizes_legacy None) \<and>
      lg_legacy (resolveSizes_legacy None) < xl_legacy (resolveSizes_legacy None) \<and>
      xl_legacy (resolveSizes_legacy None) < xxl_legacy (resolveSizes_legacy None) \<and>
      xxl_legacy (resolveSizes_legacy None) \<le> MAX_SAFE_INTEGER \<and>
      of_nat 800 \<le> MAX_SAFE_INTEGER"
    using i by (simp add: t MAX_SAFE_INTEGER_def)
  from h hl c m show ?thesis by blast
qed

section \<open>The provider\<close>

lemma resolveSizes_legacy_agree:
  "xxl_legacy (resolveSizes_legacy u) = xxl (resolveSizes u)"
  "xl_legacy (resolveSizes_legacy u) = xl (resolveSizes u)"
  "lg_legacy (resolveSizes_legacy u) = lg (resolveSizes u)"
  "md_legacy (resolveSizes_legacy u) = md (resolveSizes u)"
  by (simp_all add: resolveSizes_legacy_def resolveSizes_def defaultSizes_def)

lemma screenSize_Provider:
  "screenSize (ScreenSizeProvider u w) =
     findLargestScreenSizeMatch (mediaMatches (resolveSizes u) w)"
  by (simp add: ScreenSizeProvider_def Let_def)

lemma screenSize_Provider_legacy:
  "screenSize_legacy (ScreenSizeProvider_legacy u w) =
     findLargestScreenSizeMatch_legacy (mediaMatches_legacy (resolveSizes_legacy u) w)"
  by (simp add: ScreenSizeProvider_legacy_def Let_def)

lemma resolveSizes_None:
  "resolveSizes None = \<lparr>xxl = 1536, xl = 1280, lg = 1024, md = 768, sm = 640\<rparr>"
  by (simp add: resolveSizes_def opt_chain_def defaultSizes_def)

lemma resolveSizes_legacy_None:
  "resolveSizes_legacy None =
     \<lparr>xxl_legacy = 1536, xl_legacy = 1280, lg_legacy = 1024, md_legacy = 768\<rparr>"
  by (simp add: resolveSizes_legacy_def opt_chain_def)

text \<open>
  Above the legacy sentinel the two variants part: at width 100000 no legacy watch is
  true, and the legacy resolver falls back to \<open>sm\<close>.
\<close>

lemma variants_differ_above_sentinel:
  "screenSize (ScreenSizeProvider None 100000) = XXL \<and>
   screenSize_legacy (ScreenSizeProvider_legacy None 100000) = SM"
  by (simp add: screenSize_Provider screenSize_Provider_legacy resolveSizes_None
      resolveSizes_legacy_None findLargestScreenSizeMatch_def
      findLargestScreenSizeMatch_legacy_def mediaMatches_ranges mediaMatches_legacy_ranges
      Number_MAX_SAFE_INTEGER_def MAX_SAFE_INTEGER_def)

text \<open>
  C6. For every viewport width from 0 to 99999 the legacy and the richer provider
  publish the same screen size; this holds for any overrides handed to both, and so
  with none. The two resolve the same four thresholds \<open>xxl\<close>, \<open>xl\<close>, \<open>lg\<close>, \<open>md\<close>.
\<close>

theorem C6_variants_agree:
  assumes "w \<le> 99999"
  shows "screenSize (ScreenSizeProvider None w) =
           screenSize_legacy (ScreenSizeProvider_legacy None w) \<and>
         screenSize (ScreenSizeProvider u w) =
           screenSize_legacy (ScreenSizeProvider_legacy u w) \<and>
         xxl_legacy (resolveSizes_legacy u) = xxl (resolveSizes u) \<and>
         xl_legacy (resolveSizes_legacy u) = xl (resolveSizes u) \<and>
         lg_legacy (resolveSizes_legacy u) = lg (resolveSizes u) \<and>
         md_legacy (resolveSizes_legacy u) = md (resolveSizes u)"
proof -
  from assms have le: "of_nat w \<le> MAX_SAFE_INTEGER" "of_nat w \<le> Number_MAX_SAFE_INTEGER"
    by (simp_all add: MAX_SAFE_INTEGER_def Number_MAX_SAFE_INTEGER_def)
  have "screenSize (ScreenSizeProvider v w) =
      screenSize_legacy (ScreenSizeProvider_legacy v w)" for v
    using le
    by (simp add: screenSize_Provider screenSize_Provider_legacy
        findLargestScreenSizeMatch_def findLargestScreenSizeMatch_legacy_def
        mediaMatches_ranges mediaMatches_legacy_ranges resolveSizes_legacy_agree)
  then show ?thesis
    by (simp add: resolveSizes_legacy_agree)
qed

theorem C6_variants_agree_witness:
  "(800::nat) \<le> 99999 \<and>
   screenSize (ScreenSizeProvider None 800) =
     screenSize_legacy (ScreenSizeProvider_legacy None 800)"
proof -
  have h: "(800::nat) \<le> 99999" by simp
  from C6_variants_agree [OF h] h show ?thesis by simp
qed

text \<open>
  C7. With no overrides a viewport of width 800 publishes \<open>md\<close>; with the override
  \<^verbatim>\<open>{md: 900}\<close> a viewport of width 850 publishes \<open>sm\<close>. In both variants.
\<close>

theorem C7_scenarios:
  "screenSize (ScreenSizeProvider None 800) = MD \<and>
   screenSize_legacy (ScreenSizeProvider_legacy None 800) = MD \<and>
   screenSize (ScreenSizeProvider
     (Some \<lparr>xxl = Undefined, xl = Undefined, lg = Undefined, md = Num 900, sm = Undefined\<rparr>)
     850) = SM \<and>
   screenSize_legacy (ScreenSizeProvider_legacy
     (Some \<lparr>xxl = Undefined, xl = Undefined, lg = Undefined, md = Num 900, sm = Undefined\<rparr>)
     850) = SM"
  by (simp add: screenSize_Provider screenSize_Provider_legacy resolveSizes_def
      resolveSizes_legacy_def opt_chain_def defaultSizes_def findLargestScreenSizeMatch_def
      findLargestScreenSizeMatch_legacy_def mediaMatches_ranges mediaMatches_legacy_ranges
      Number_MAX_SAFE_INTEGER_def MAX_SAFE_INTEGER_def)

text \<open>
  C8. Outside of any provider the read accessor returns \<open>sm\<close>, the screen size of the
  value the context was created with, in both variants. The accessor has no failing
  branch.
\<close>

theorem C8_accessor_default:
  "useScreenSize None = SM \<and> screenSize ScreenSizeContext = SM \<and>
   useScreenSize_legacy None = SM \<and> screenSize_legacy ScreenSizeContext_legacy = SM"
  by (simp add: useScreenSize_def useScreenSize_legacy_def useContext_def
      ScreenSizeContext_def ScreenSizeContext_legacy_def)

text \<open>
  C9. In the richer variant the provider publishes the pair of the screen size and
  \<open>breakpoints\<close>, and \<open>breakpoints\<close> is the effective table, not the raw overrides:
  for every name its entry is the override when that is present and truthy, and the
  built-in default (1536, 1280, 1024, 768, 640) when the override is absent or falsy.
  The published screen size is the one that the ranges built on the published table
  give for the current width.
\<close>

theorem C9_published_breakpoints:
  "(truthy (opt_chain u (\<lambda>r. index r name)) \<longrightarrow>
      Num (index (breakpoints (ScreenSizeProvider u w)) name) =
        opt_chain u (\<lambda>r. index r name)) \<and>
   (\<not> truthy (opt_chain u (\<lambda>r. index r name)) \<longrightarrow>
      index (breakpoints (ScreenSizeProvider u w)) name =
        index \<lparr>xxl = 1536, xl = 1280, lg = 1024, md = 768, sm = 640\<rparr> name) \<and>
   screenSize (ScreenSizeProvider u w) =
     (if xxl (breakpoints (ScreenSizeProvider u w)) \<le> of_nat w \<and> of_nat w \<le> (2 ^ 53 - 1 :: rat)
      then XXL
      else if xl (breakpoints (ScreenSizeProvider u w)) \<le> of_nat w \<and>
        of_nat w \<le> xxl (breakpoints (ScreenSizeProvider u w)) - 1
      then XL
      else if lg (breakpoints (ScreenSizeProvider u w)) \<le> of_nat w \<and>
        of_nat w \<le> xl (breakpoints (ScreenSizeProvider u w)) - 1
      then LG
      else if md (breakpoints (ScreenSizeProvider u w)) \<le> of_nat w \<and>
        of_nat w \<le> lg (breakpoints (ScreenSizeProvider u w)) - 1
      then MD
      else SM)"
proof -
  let ?a = "opt_chain u (\<lambda>r. index r name)"
  have b: "breakpoints (ScreenSizeProvider u w) = resolveSizes u"
    by (simp add: ScreenSizeProvider_def Let_def)
  have d: "defaultSizes = \<lparr>xxl = 1536, xl = 1280, lg = 1024, md = 768, sm = 640\<rparr>"
    by (simp add: defaultSizes_def)
  have t: "truthy ?a \<longrightarrow> Num (index (resolveSizes u) name) = ?a"
    by (simp add: index_resolveSizes js_or_truthy)
  have f: "\<not> truthy ?a \<longrightarrow> index (resolveSizes u) name = index defaultSizes name"
    by (simp add: index_resolveSizes js_or_falsy)
  have s: "screenSize (ScreenSizeProvider u w) =
     (if xxl (resolveSizes u) \<le> of_nat w \<and> of_nat w \<le> (2 ^ 53 - 1 :: rat) then XXL
      else if xl (resolveSizes u) \<le> of_nat w \<and> of_nat w \<le> xxl (resolveSizes u) - 1
      then XL
      else if lg (resolveSizes u) \<le> of_nat w \<and> of_nat w \<le> xl (resolveSizes u) - 1
      then LG
      else if md (resolveSizes u) \<le> of_nat w \<and> of_nat w \<le> lg (resolveSizes u) - 1
      then MD
      else SM)"
    by (simp add: screenSize_Provider findLargestScreenSizeMatch_def mediaMatches_ranges
        Number_MAX_SAFE_INTEGER_def)
  from t f s show ?thesis
    unfolding b d by blast
qed

theorem C9_published_breakpoints_witness:
  "truthy (opt_chain
     (Some \<lparr>xxl = Undefined, xl = Num 1000, lg = Undefined, md = Undefined, sm = Undefined\<rparr>)
     (\<lambda>r. index r XL)) \<and>
   index (breakpoints (ScreenSizeProvider
     (Some \<lparr>xxl = Undefined, xl = Num 1000, lg = Undefined, md = Undefined, sm = Undefined\<rparr>)
     1010)) XL = 1000 \<and>
   \<not> truthy (opt_chain
     (Some \<lparr>xxl = Undefined, xl = Num 0, lg = Undefined, md = Undefined, sm = Undefined\<rparr>)
     (\<lambda>r. index r XL)) \<and>
   index (breakpoints (ScreenSizeProvider
     (Some \<lparr>xxl = Undefined, xl = Num 0, lg = Undefined, md = Undefined, sm = Undefined\<rparr>)
     1010)) XL = 1280"
proof -
  let ?u = "Some \<lparr>xxl = Undefined, xl = Num 1000, lg = Undefined, md = Undefined,
    sm = Undefined\<rparr>"
  let ?z = "Some \<lparr>xxl = Undefined, xl = Num 0, lg = Undefined, md = Undefined,
    sm = Undefined\<rparr>"
  have tu: "truthy (opt_chain ?u (\<lambda>r. index r XL))"
    by (simp add: opt_chain_def)
  have fz: "\<not> truthy (opt_chain ?z (\<lambda>r. index r XL))"
    by (simp add: opt_chain_def)
  from C9_published_breakpoints [of ?u XL 1010, THEN conjunct1] tu
  have u1: "index (breakpoints (ScreenSizeProvider ?u 1010)) XL = 1000"
    by (simp add: opt_chain_def)
  from C9_published_breakpoints [of ?z XL 1010, THEN conjunct2, THEN conjunct1] fz
  have z1: "index (breakpoints (ScreenSizeProvider ?z 1010)) XL = 1280"
    by simp
  from tu fz u1 z1 show ?thesis
    by blast
qed

text \<open>
  C10. The resolver never reads the \<open>sm\<close> flag: two flag records that agree on the
  other four flags resolve to the same label. In the richer variant two threshold
  tables that agree on \<open>xxl\<close>, \<open>xl\<close>, \<open>lg\<close> and \<open>md\<close> build the same five queries and
  the same flags, and two overrides objects that agree on those four entries publish
  the same screen size: the \<open>sm\<close> threshold reaches the published \<open>breakpoints\<close> only.
\<close>

theorem C10_sm_not_read:
  "(xxl f = xxl g \<and> xl f = xl g \<and> lg f = lg g \<and> md f = md g \<longrightarrow>
      findLargestScreenSizeMatch f = findLargestScreenSizeMatch g \<and>
      findLargestScreenSizeMatch_legacy f = findLargestScreenSizeMatch_legacy g) \<and>
   (xxl s = xxl t \<and> xl s = xl t \<and> lg s = lg t \<and> md s = md t \<longrightarrow>
      mediaQueries s = mediaQueries t \<and> mediaMatches s w = mediaMatches t w) \<and>
   (xxl u = xxl v \<and> xl u = xl v \<and> lg u = lg v \<and> md u = md v \<longrightarrow>
      screenSize (ScreenSizeProvider (Some u) w) =
        screenSize (ScreenSizeProvider (Some v) w)) \<and>
   sm (breakpoints (ScreenSizeProvider (Some u) w)) = js_or (sm u) (sm defaultSizes)"
proof -
  have q: "mediaQueries s = mediaQueries t"
    if "xxl s = xxl t \<and> xl s = xl t \<and> lg s = lg t \<and> md s = md t" for s t
    using that by (simp add: mediaQueries_def)
  have r: "xxl (resolveSizes (Some u)) = xxl (resolveSizes (Some v)) \<and>
      xl (resolveSizes (Some u)) = xl (resolveSizes (Some v)) \<and>
      lg (resolveSizes (Some u)) = lg (resolveSizes (Some v)) \<and>
      md (resolveSizes (Some u)) = md (resolveSizes (Some v))"
    if "xxl u = xxl v \<and> xl u = xl v \<and> lg u = lg v \<and> md u = md v"
    using that by (simp add: resolveSizes_def opt_chain_def)
  have p1: "xxl f = xxl g \<and> xl f = xl g \<and> lg f = lg g \<and> md f = md g \<longrightarrow>
      findLargestScreenSizeMatch f = findLargestScreenSizeMatch g \<and>
      findLargestScreenSizeMatch_legacy f = findLargestScreenSizeMatch_legacy g"
    by (simp add: findLargestScreenSizeMatch_def findLargestScreenSizeMatch_legacy_def)
  have p2: "xxl s = xxl t \<and> xl s = xl t \<and> lg s = lg t \<and> md s = md t \<longrightarrow>
      mediaQueries s = mediaQueries t \<and> mediaMatches s w = mediaMatches t w"
    using q [of s t] by (simp add: mediaMatches_def)
  have p3: "xxl u = xxl v \<and> xl u = xl v \<and> lg u = lg v \<and> md u = md v \<longrightarrow>
      screenSize (ScreenSizeProvider (Some u) w) =
        screenSize (ScreenSizeProvider (Some v) w)"
  proof
    assume a: "xxl u = xxl v \<and> xl u = xl v \<and> lg u = lg v \<and> md u = md v"
    from q [OF r [OF a]]
    have "mediaMatches (resolveSizes (Some u)) w = mediaMatches (resolveSizes (Some v)) w"
      by (simp add: mediaMatches_def)
    then show "screenSize (ScreenSizeProvider (Some u) w) =
        screenSize (ScreenSizeProvider (Some v) w)"
      by (simp add: screenSize_Provider)
  qed
  have p4: "sm (breakpoints (ScreenSizeProvider (Some u) w)) = js_or (sm u) (sm defaultSizes)"
    by (simp add: ScreenSizeProvider_def Let_def resolveSizes_def opt_chain_def)
  from p1 p2 p3 p4 show ?thesis by blast
qed

theorem C10_sm_not_read_witness:
  "findLargestScreenSizeMatch \<lparr>xxl = False, xl = False, lg = True, md = False, sm = True\<rparr> =
     findLargestScreenSizeMatch \<lparr>xxl = False, xl = False, lg = True, md = False, sm = False\<rparr> \<and>
   mediaQueries \<lparr>xxl = 1536, xl = 1280, lg = 1024, md = 768, sm = 640\<rparr> =
     mediaQueries \<lparr>xxl = 1536, xl = 1280, lg = 1024, md = 768, sm = 100\<rparr> \<and>
   screenSize (ScreenSizeProvider
     (Some \<lparr>xxl = Undefined, xl = Undefined, lg = Undefined, md = Undefined, sm = Num 700\<rparr>)
     650) =
   screenSize (ScreenSizeProvider
     (Some \<lparr>xxl = Undefined, xl = Undefined, lg = Undefined, md = Undefined, sm = Num 100\<rparr>)
     650)"
  using
    C10_sm_not_read [of
      "\<lparr>xxl = False, xl = False, lg = True, md = False, sm = True\<rparr>"
      "\<lparr>xxl = False, xl = False, lg = True, md = False, sm = False\<rparr>"
      "\<lparr>xxl = 1536, xl = 1280, lg = 1024, md = 768, sm = 640\<rparr>"
      "\<lparr>xxl = 1536, xl = 1280, lg = 1024, md = 768, sm = 100\<rparr>"
      650
      "\<lparr>xxl = Undefined, xl = Undefined, lg = Undefined, md = Undefined, sm = Num 700\<rparr>"
      "\<lparr>xxl = Undefined, xl = Undefined, lg = Undefined, md = Undefined, sm = Num 100\<rparr>"]
  by simp

end
